theory Spec2Isabelle
  imports Complex_Main
begin

section \<open>Data model (lib/types)\<close>

text \<open>
  A JavaScript \<open>number\<close> is modelled as a \<open>real\<close> in the question scoring, the risk
  model, the consistency index and the loan decision: their arithmetic is read as exact
  arithmetic. Blending and behavioral scoring, where rounding and overflow decide what
  holds, are modelled over double-precision numbers, introduced in their own section.
\<close>

datatype OceanTrait = Trait_O | Trait_C | Trait_E | Trait_A | Trait_N

text \<open>
  \<open>OceanScores\<close>, \<open>NormalizedOceanScores\<close> and \<open>TraitVariances\<close> are the same
  structural type in the source: an object with the five number fields O, C, E, A, N.
\<close>

record OceanScores =
  O_val :: real
  C_val :: real
  E_val :: real
  A_val :: real
  N_val :: real

type_synonym NormalizedOceanScores = OceanScores
type_synonym TraitVariances = OceanScores

text \<open>Indexing \<open>scores[trait]\<close>.\<close>

fun at_trait :: "'a OceanScores_scheme \<Rightarrow> OceanTrait \<Rightarrow> real" where
  "at_trait s Trait_O = O_val s"
| "at_trait s Trait_C = C_val s"
| "at_trait s Trait_E = E_val s"
| "at_trait s Trait_A = A_val s"
| "at_trait s Trait_N = N_val s"

datatype RiskRating = low | moderate | elevated

datatype AssessmentDecision = approved | pending_approval | declined | manual_review | pending

datatype ConsistencyFlag =
  highly_consistent | normal_variance | moderate_discrepancy | high_discrepancy

text \<open>\<open>ConsistencyIndex\<close>: the five per-trait fields, plus \<open>overall\<close> and \<open>flag\<close>.\<close>

record ConsistencyIndex = OceanScores +
  overall :: real
  flag :: ConsistencyFlag

datatype QuestionType = grid | bars | budget | timeline | reaction | tradeoff

text \<open>
  \<open>QuestionResponse\<close>; the payload \<open>raw_response\<close> (\<open>Record<string, unknown>\<close>) is a
  type parameter. Its fields \<open>session_id\<close>, \<open>trait\<close> and \<open>score\<close> are \<open>qr_session_id\<close>,
  \<open>response_trait\<close> and \<open>response_score\<close> here.
\<close>

record 'p QuestionResponse =
  qr_session_id :: string
  question_index :: real
  question_type :: QuestionType
  response_trait :: OceanTrait
  response_score :: real
  response_time_ms :: real
  raw_response :: 'p
  hesitation_count :: real
  changed_answer :: bool

section \<open>Constants (lib/constants/index.ts)\<close>

definition TRAIT_WEIGHTS :: OceanScores where
  "TRAIT_WEIGHTS = \<lparr>O_val = 0.12, C_val = 0.35, E_val = 0.10, A_val = 0.18, N_val = 0.25\<rparr>"

definition PD_MIN :: real where "PD_MIN = 0.02"
definition PD_MAX :: real where "PD_MAX = 0.35"
definition PD_RANGE :: real where "PD_RANGE = PD_MAX - PD_MIN"

record RiskThresholds =
  rt_low :: real
  rt_moderate :: real

definition RISK_THRESHOLDS :: RiskThresholds where
  "RISK_THRESHOLDS = \<lparr>rt_low = 0.08, rt_moderate = 0.18\<rparr>"

record BlendingWeight =
  phase1 :: real
  phase2 :: real

fun BLENDING_WEIGHTS :: "OceanTrait \<Rightarrow> BlendingWeight" where
  "BLENDING_WEIGHTS Trait_C = \<lparr>phase1 = 0.55, phase2 = 0.45\<rparr>"
| "BLENDING_WEIGHTS Trait_N = \<lparr>phase1 = 0.50, phase2 = 0.50\<rparr>"
| "BLENDING_WEIGHTS Trait_A = \<lparr>phase1 = 0.60, phase2 = 0.40\<rparr>"
| "BLENDING_WEIGHTS Trait_O = \<lparr>phase1 = 0.45, phase2 = 0.55\<rparr>"
| "BLENDING_WEIGHTS Trait_E = \<lparr>phase1 = 0.55, phase2 = 0.45\<rparr>"





record LoanThresholds =
  auto_approve_pd :: real
  manual_review_pd :: real
  auto_decline_pd :: real
  consistency_review_threshold :: real

definition LOAN_THRESHOLDS :: LoanThresholds where
  "LOAN_THRESHOLDS =
     \<lparr>auto_approve_pd = 0.08, manual_review_pd = 0.18, auto_decline_pd = 0.35,
      consistency_review_threshold = 0.40\<rparr>"

fun max_amount :: "RiskRating \<Rightarrow> real" where
  "max_amount low = 50000"
| "max_amount moderate = 25000"
| "max_amount elevated = 10000"

fun duration_months :: "RiskRating \<Rightarrow> real" where
  "duration_months low = 36"
| "duration_months moderate = 24"
| "duration_months elevated = 12"

fun apr_percent :: "RiskRating \<Rightarrow> real" where
  "apr_percent low = 8.5"
| "apr_percent moderate = 14.0"
| "apr_percent elevated = 22.0"

section \<open>OCEAN trait scoring (lib/scoring/ocean.ts)\<close>

text \<open>The enumeration \<open>['O', 'C', 'E', 'A', 'N']\<close> that every loop over the traits uses.\<close>

definition traits :: "OceanTrait list" where
  "traits = [Trait_O, Trait_C, Trait_E, Trait_A, Trait_N]"

text \<open>
  The loop \<open>for (const response of responses) traitScores[response.trait].push(response.score)\<close>
  over the five arrays, all empty at the start.
\<close>

definition collectScores :: "'p QuestionResponse list \<Rightarrow> OceanTrait \<Rightarrow> real list" where
  "collectScores responses =
     foldl (\<lambda>traitScores response.
              traitScores(response_trait response :=
                traitScores (response_trait response) @ [response_score response]))
           (\<lambda>_. []) responses"

text \<open>
  The helpers \<open>average\<close> and \<open>variance\<close>; each divisor is a length that the guard
  before it makes non-zero.
\<close>

definition average :: "real list \<Rightarrow> real \<Rightarrow> real" where
  "average vs defaultValue =
     (if length vs = 0 then defaultValue
      else foldl (\<lambda>sum v. sum + v) 0 vs / real (length vs))"

definition variance :: "real list \<Rightarrow> real" where
  "variance vs =
     (if length vs < 2 then 1.0
      else
        let mean = foldl (\<lambda>sum v. sum + v) 0 vs / real (length vs);
            squaredDiffs = map (\<lambda>v. (v - mean) ^ 2) vs
        in foldl (\<lambda>sum v. sum + v) 0 squaredDiffs / real (length vs))"

definition computeTraitAverages :: "'p QuestionResponse list \<Rightarrow> OceanScores" where
  "computeTraitAverages responses =
     (let traitScores = collectScores responses in
      \<lparr>O_val = average (traitScores Trait_O) 3.0,
       C_val = average (traitScores Trait_C) 3.0,
       E_val = average (traitScores Trait_E) 3.0,
       A_val = average (traitScores Trait_A) 3.0,
       N_val = average (traitScores Trait_N) 3.0\<rparr>)"

definition computeTraitVariances :: "'p QuestionResponse list \<Rightarrow> TraitVariances" where
  "computeTraitVariances responses =
     (let traitScores = collectScores responses in
      \<lparr>O_val = variance (traitScores Trait_O),
       C_val = variance (traitScores Trait_C),
       E_val = variance (traitScores Trait_E),
       A_val = variance (traitScores Trait_A),
       N_val = variance (traitScores Trait_N)\<rparr>)"

text \<open>
  \<open>selectHighestVarianceTrait\<close>: the loop state is the pair \<open>(maxVariance, maxTrait)\<close>,
  started at \<open>(-1, 'C')\<close>; a trait replaces the current one only on a strictly greater
  variance.
\<close>

definition selectStep :: "TraitVariances \<Rightarrow> real \<times> OceanTrait \<Rightarrow> OceanTrait \<Rightarrow> real \<times> OceanTrait" where
  "selectStep variances st trait =
     (if at_trait variances trait > fst st then (at_trait variances trait, trait) else st)"

definition selectHighestVarianceTrait :: "TraitVariances \<Rightarrow> OceanTrait" where
  "selectHighestVarianceTrait variances =
     snd (foldl (selectStep variances) (-1, Trait_C) traits)"

text \<open>
  The variance map of a session before any measurement, as the session start handler
  (api/game) builds it: \<open>{ O: 1.0, C: 1.0, E: 1.0, A: 1.0, N: 1.0 }\<close>.
\<close>

definition initialVariances :: TraitVariances where
  "initialVariances = \<lparr>O_val = 1.0, C_val = 1.0, E_val = 1.0, A_val = 1.0, N_val = 1.0\<rparr>"

text \<open>\<open>Object.values(variances)\<close>: the five field values.\<close>

definition object_values :: "OceanScores \<Rightarrow> real list" where
  "object_values s = [O_val s, C_val s, E_val s, A_val s, N_val s]"

definition isAssessmentComplete :: "TraitVariances \<Rightarrow> real \<Rightarrow> real \<Rightarrow> real \<Rightarrow> real \<Rightarrow> bool" where
  "isAssessmentComplete variances questionCount varianceThreshold minQuestions maxQuestions =
     (if questionCount \<ge> maxQuestions then True
      else if questionCount < minQuestions then False
      else list_all (\<lambda>v. v < varianceThreshold) (object_values variances))"

definition normalizeScore :: "real \<Rightarrow> real" where
  "normalizeScore score = max 0 (min 1 ((score - 1) / 4))"

definition denormalizeScore :: "real \<Rightarrow> real" where
  "denormalizeScore normalized = 1 + normalized * 4"

section \<open>Probability of default (lib/scoring/pd.ts)\<close>

definition computeRiskContributions :: "OceanScores \<Rightarrow> OceanScores" where
  "computeRiskContributions scores =
     \<lparr>O_val = (O_val scores - 1) / 4,
      C_val = (5 - C_val scores) / 4,
      E_val = (E_val scores - 1) / 4,
      A_val = (A_val scores - 1) / 4,
      N_val = (N_val scores - 1) / 4\<rparr>"

definition computeWeightedRisk :: "OceanScores \<Rightarrow> real" where
  "computeWeightedRisk scores =
     (let risks = computeRiskContributions scores in
        C_val TRAIT_WEIGHTS * C_val risks +
        N_val TRAIT_WEIGHTS * N_val risks +
        A_val TRAIT_WEIGHTS * A_val risks +
        O_val TRAIT_WEIGHTS * O_val risks +
        E_val TRAIT_WEIGHTS * E_val risks)"

definition computePD :: "OceanScores \<Rightarrow> real" where
  "computePD scores =
     (let weightedRisk = computeWeightedRisk scores in
        min PD_MAX (max PD_MIN (PD_MIN + weightedRisk * PD_RANGE)))"

definition applyProfileModifier :: "real \<Rightarrow> real \<Rightarrow> real" where
  "applyProfileModifier pd modifier =
     (let modified = pd + modifier in min PD_MAX (max PD_MIN modified))"

definition getRiskRating :: "real \<Rightarrow> RiskRating" where
  "getRiskRating pd =
     (if pd < rt_low RISK_THRESHOLDS then low
      else if pd < rt_moderate RISK_THRESHOLDS then moderate
      else elevated)"

record FullPD =
  riskContributions :: OceanScores
  weightedRisk :: real
  pdRaw :: real
  pdModified :: real
  riskRating :: RiskRating

definition calculateFullPD :: "OceanScores \<Rightarrow> real \<Rightarrow> FullPD" where
  "calculateFullPD scores profileModifier =
     (let riskContributions = computeRiskContributions scores;
          weightedRisk = computeWeightedRisk scores;
          pdRaw = computePD scores;
          pdModified = applyProfileModifier pdRaw profileModifier;
          riskRating = getRiskRating pdModified
      in \<lparr>riskContributions = riskContributions, weightedRisk = weightedRisk,
          pdRaw = pdRaw, pdModified = pdModified, riskRating = riskRating\<rparr>)"

section \<open>Consistency of phase 1 and phase 2 (lib/scoring/blending.ts)\<close>

text \<open>
  \<open>Partial<OceanScores>\<close>, the object that the loop fills field by field, is a map from
  traits to numbers, \<open>{}\<close> being the empty map. The assertions \<open>perTrait.C!\<close> read the
  fields; \<open>filled\<close> says that all five are there. The function \<open>blendScores\<close> of the
  same file is embedded over double-precision numbers further down.
\<close>

type_synonym PartialScores = "OceanTrait \<rightharpoonup> real"

definition filled :: "PartialScores \<Rightarrow> bool" where
  "filled m = list_all (\<lambda>t. m t \<noteq> None) traits"


definition perTraitStep :: "OceanScores \<Rightarrow> NormalizedOceanScores \<Rightarrow> PartialScores \<Rightarrow> OceanTrait \<Rightarrow> PartialScores" where
  "perTraitStep phase1Scores phase2Scores perTrait trait =
     (let phase1Normalized = normalizeScore (at_trait phase1Scores trait)
      in perTrait(trait \<mapsto> \<bar>phase1Normalized - at_trait phase2Scores trait\<bar>))"

definition perTraitLoop :: "OceanScores \<Rightarrow> NormalizedOceanScores \<Rightarrow> PartialScores" where
  "perTraitLoop phase1Scores phase2Scores =
     foldl (perTraitStep phase1Scores phase2Scores) Map.empty traits"


section \<open>Loan decision (lib/scoring/loan.ts)\<close>

text \<open>
  The field \<open>userFacingDecision\<close> is declared with the two literals
  \<open>'approved' | 'pending_approval'\<close>, both of them literals of \<open>AssessmentDecision\<close>;
  the model gives it the wider type, so that the restriction to the two values is a
  property of the function and not of the model's typing.
\<close>

record LoanDecisionResult =
  decision :: AssessmentDecision
  userFacingDecision :: AssessmentDecision
  maxAmount :: real
  durationMonths :: real
  aprPercent :: real
  amountBasis :: string
  durationBasis :: string
  aprBasis :: string

text \<open>The text of a risk rating inside a template string.\<close>

fun rating_text :: "RiskRating \<Rightarrow> string" where
  "rating_text low = ''low''"
| "rating_text moderate = ''moderate''"
| "rating_text elevated = ''elevated''"

text \<open>
  \<open>determineLoanDecision\<close>. The built-in \<open>Number.prototype.toFixed\<close> that renders the
  percentage in \<open>amountBasis\<close> is the parameter \<open>toFixed\<close> (number, digits); nothing is
  assumed about it.
\<close>

definition determineLoanDecision ::
  "(real \<Rightarrow> nat \<Rightarrow> string) \<Rightarrow> real \<Rightarrow> RiskRating \<Rightarrow> ConsistencyIndex option \<Rightarrow> LoanDecisionResult" where
  "determineLoanDecision toFixed pd rating consistency =
     (let consistencyOverall = (case consistency of None \<Rightarrow> 0 | Some c \<Rightarrow> overall c);
          (dec, userFacing) =
            (if consistencyOverall > consistency_review_threshold LOAN_THRESHOLDS
               then (manual_review, pending_approval)
             else if pd < auto_approve_pd LOAN_THRESHOLDS
               then (approved, approved)
             else if pd < manual_review_pd LOAN_THRESHOLDS
               then (pending_approval, pending_approval)
             else (manual_review, pending_approval))
      in \<lparr>decision = dec,
          userFacingDecision = userFacing,
          maxAmount = max_amount rating,
          durationMonths = duration_months rating,
          aprPercent = apr_percent rating,
          amountBasis = ''Based on '' @ rating_text rating @ '' risk rating (PD: '' @
                          toFixed (pd * 100) 1 @ ''%)'',
          durationBasis = ''Standard '' @ rating_text rating @ ''-risk term'',
          aprBasis = ''Risk-adjusted rate for '' @ rating_text rating @ '' risk tier''\<rparr>)"

section \<open>Double-precision numbers\<close>

text \<open>
  The values of a JavaScript number: the finite doubles, the two infinities and
  \<open>NaN\<close>. A finite double is carried as the real number it denotes, so the sign of a
  zero is not kept; the embedded code never divides by a zero that a guard has not
  excluded, and comparisons, \<open>Math.max\<close> and \<open>Math.min\<close> are read on values.
\<close>

datatype number = Fin real | PosInf | NegInf | NaN

text \<open>
  Rounding to nearest, ties to even. The unit in the last place of \<open>x\<close> is
  \<open>2 ^ (e - 52)\<close> for the binary exponent \<open>e\<close> of \<open>x\<close>, which is not taken below
  -1022 (gradual underflow: the smallest unit is \<open>2 ^ -1074\<close>). \<open>rnd x\<close> is the multiple
  of that unit nearest to \<open>x\<close>, the even multiple on a tie; \<open>fl64 x\<close> is the double that
  an operation with exact result \<open>x\<close> returns, an infinity once the rounded magnitude
  reaches \<open>2 ^ 1024\<close>.
\<close>

definition expo :: "real \<Rightarrow> int" where
  "expo x = max \<lfloor>log 2 \<bar>x\<bar>\<rfloor> (-1022)"

definition ulp :: "real \<Rightarrow> real" where
  "ulp x = 2 powr real_of_int (expo x - 52)"

definition round_even :: "real \<Rightarrow> int" where
  "round_even x =
     (let f = \<lfloor>x\<rfloor>; d = x - real_of_int f
      in if d < 1 / 2 then f else if d > 1 / 2 then f + 1 else if even f then f else f + 1)"

definition rnd :: "real \<Rightarrow> real" where
  "rnd x = (if x = 0 then 0 else real_of_int (round_even (x / ulp x)) * ulp x)"

definition overflow_threshold :: real where
  "overflow_threshold = 2 ^ 1024"

definition fl64 :: "real \<Rightarrow> number" where
  "fl64 x = (let r = rnd x in
           if r \<ge> overflow_threshold then PosInf
           else if r \<le> - overflow_threshold then NegInf
           else Fin r)"

text \<open>
  The arithmetic of numbers: \<open>+\<close>, unary and binary \<open>-\<close>, \<open>*\<close>, \<open>/\<close>, \<open>Math.sqrt\<close>,
  \<open>Math.abs\<close>, \<open><\<close>, \<open>>\<close>, \<open>===\<close>, \<open>Math.min\<close> and \<open>Math.max\<close>, with the results that
  IEEE 754 gives on infinities and \<open>NaN\<close>.
\<close>

fun js_neg :: "number \<Rightarrow> number" where
  "js_neg (Fin a) = Fin (- a)"
| "js_neg PosInf = NegInf"
| "js_neg NegInf = PosInf"
| "js_neg NaN = NaN"

fun js_add :: "number \<Rightarrow> number \<Rightarrow> number" where
  "js_add (Fin a) (Fin b) = fl64 (a + b)"
| "js_add NaN y = NaN"
| "js_add x NaN = NaN"
| "js_add PosInf NegInf = NaN"
| "js_add NegInf PosInf = NaN"
| "js_add PosInf y = PosInf"
| "js_add x PosInf = PosInf"
| "js_add NegInf y = NegInf"
| "js_add x NegInf = NegInf"

definition js_sub :: "number \<Rightarrow> number \<Rightarrow> number" where
  "js_sub x y = js_add x (js_neg y)"

fun is_zero :: "number \<Rightarrow> bool" where
  "is_zero (Fin a) = (a = 0)"
| "is_zero x = False"

fun is_negative :: "number \<Rightarrow> bool" where
  "is_negative (Fin a) = (a < 0)"
| "is_negative NegInf = True"
| "is_negative x = False"

definition signed_inf :: "bool \<Rightarrow> number" where
  "signed_inf negative = (if negative then NegInf else PosInf)"

fun js_mul :: "number \<Rightarrow> number \<Rightarrow> number" where
  "js_mul (Fin a) (Fin b) = fl64 (a * b)"
| "js_mul NaN y = NaN"
| "js_mul x NaN = NaN"
| "js_mul x y =
     (if is_zero x \<or> is_zero y then NaN else signed_inf (is_negative x \<noteq> is_negative y))"

fun js_div :: "number \<Rightarrow> number \<Rightarrow> number" where
  "js_div (Fin a) (Fin b) =
     (if b = 0 then (if a = 0 then NaN else signed_inf (a < 0)) else fl64 (a / b))"
| "js_div NaN y = NaN"
| "js_div x NaN = NaN"
| "js_div (Fin a) y = Fin 0"
| "js_div x (Fin b) = signed_inf (is_negative x \<noteq> (b < 0))"
| "js_div x y = NaN"






fun js_min :: "number \<Rightarrow> number \<Rightarrow> number" where
  "js_min (Fin a) (Fin b) = Fin (min a b)"
| "js_min NaN y = NaN"
| "js_min x NaN = NaN"
| "js_min NegInf y = NegInf"
| "js_min x NegInf = NegInf"
| "js_min PosInf y = y"
| "js_min x PosInf = x"

fun js_max :: "number \<Rightarrow> number \<Rightarrow> number" where
  "js_max (Fin a) (Fin b) = Fin (max a b)"
| "js_max NaN y = NaN"
| "js_max x NaN = NaN"
| "js_max PosInf y = PosInf"
| "js_max x PosInf = PosInf"
| "js_max NegInf y = y"
| "js_max x NegInf = x"


definition lit :: "real \<Rightarrow> number" where
  "lit d = fl64 d"


text \<open>
  Predicates on numbers: the finite ones, those of bounded magnitude, those in
  \<open>[0, 1]\<close>, those on the raw scale \<open>[1, 5]\<close>; a non-negative number may be
  \<open>+Infinity\<close>, a number bounded above may be \<open>-Infinity\<close>. \<open>close_to eps x y\<close> says
  that \<open>x\<close> and \<open>y\<close> are finite and differ by at most \<open>eps\<close>; \<open>repr y\<close> that the real
  \<open>y\<close> is a double.
\<close>

definition repr :: "real \<Rightarrow> bool" where
  "repr y \<longleftrightarrow> (\<exists>m e. y = real_of_int m * 2 powr real_of_int e \<and> \<bar>m\<bar> < 2 ^ 53 \<and> -1074 \<le> e \<and> e \<le> 971)"






definition raw_scale :: "number \<Rightarrow> bool" where
  "raw_scale x \<longleftrightarrow> (\<exists>r. x = Fin r \<and> 1 \<le> r \<and> r \<le> 5)"

definition close_to :: "real \<Rightarrow> number \<Rightarrow> number \<Rightarrow> bool" where
  "close_to eps x y \<longleftrightarrow> (\<exists>a b. x = Fin a \<and> y = Fin b \<and> \<bar>a - b\<bar> \<le> eps)"

section \<open>Blending of phase 1 and phase 2 (lib/scoring/blending.ts)\<close>

text \<open>
  Score vectors of numbers, with \<open>normalizeScore\<close> and \<open>denormalizeScore\<close> of
  \<open>ocean.ts\<close> as they compute on numbers. The weights of \<open>BLENDING_WEIGHTS\<close> are decimal
  literals, so the loop multiplies by the doubles they denote. The object \<open>blended\<close> is
  a map from traits to numbers that the loop fills; the cast \<open>blended as OceanScores\<close>
  reads its five fields.
\<close>

record DoubleScores =
  O_num :: number
  C_num :: number
  E_num :: number
  A_num :: number
  N_num :: number

fun num_at :: "DoubleScores \<Rightarrow> OceanTrait \<Rightarrow> number" where
  "num_at s Trait_O = O_num s"
| "num_at s Trait_C = C_num s"
| "num_at s Trait_E = E_num s"
| "num_at s Trait_A = A_num s"
| "num_at s Trait_N = N_num s"

definition normalizeScore_d :: "number \<Rightarrow> number" where
  "normalizeScore_d score = js_max (Fin 0) (js_min (Fin 1) (js_div (js_sub score (Fin 1)) (Fin 4)))"

definition denormalizeScore_d :: "number \<Rightarrow> number" where
  "denormalizeScore_d normalized = js_add (Fin 1) (js_mul normalized (Fin 4))"

type_synonym PartialDoubleScores = "OceanTrait \<rightharpoonup> number"

definition asDoubleScores :: "PartialDoubleScores \<Rightarrow> DoubleScores" where
  "asDoubleScores m =
     \<lparr>O_num = the (m Trait_O), C_num = the (m Trait_C), E_num = the (m Trait_E),
      A_num = the (m Trait_A), N_num = the (m Trait_N)\<rparr>"

definition blendStep ::
  "DoubleScores \<Rightarrow> DoubleScores \<Rightarrow> PartialDoubleScores \<Rightarrow> OceanTrait \<Rightarrow> PartialDoubleScores" where
  "blendStep phase1Scores phase2Scores blended trait =
     (let weights = BLENDING_WEIGHTS trait;
          phase1Normalized = normalizeScore_d (num_at phase1Scores trait);
          blendedNormalized =
            js_add (js_mul (lit (phase1 weights)) phase1Normalized)
                   (js_mul (lit (phase2 weights)) (num_at phase2Scores trait))
      in blended(trait \<mapsto> denormalizeScore_d blendedNormalized))"

definition blendLoop :: "DoubleScores \<Rightarrow> DoubleScores \<Rightarrow> PartialDoubleScores" where
  "blendLoop phase1Scores phase2Scores =
     foldl (blendStep phase1Scores phase2Scores) Map.empty traits"

definition blendScores :: "DoubleScores \<Rightarrow> DoubleScores \<Rightarrow> DoubleScores" where
  "blendScores phase1Scores phase2Scores = asDoubleScores (blendLoop phase1Scores phase2Scores)"

text \<open>
  The per-trait normalisation of a vector, as the formula \<open>(x - 1) / 4\<close> computes it,
  and the value that the loop stores for one trait.
\<close>

definition quarterOf :: "number \<Rightarrow> number" where
  "quarterOf x = js_div (js_sub x (Fin 1)) (Fin 4)"

definition agreeingPhase2 :: "DoubleScores \<Rightarrow> DoubleScores" where
  "agreeingPhase2 x =
     \<lparr>O_num = quarterOf (O_num x), C_num = quarterOf (C_num x), E_num = quarterOf (E_num x),
      A_num = quarterOf (A_num x), N_num = quarterOf (N_num x)\<rparr>"

definition blendTrait :: "OceanTrait \<Rightarrow> number \<Rightarrow> number \<Rightarrow> number" where
  "blendTrait t x y =
     denormalizeScore_d
       (js_add (js_mul (lit (phase1 (BLENDING_WEIGHTS t))) (normalizeScore_d x))
               (js_mul (lit (phase2 (BLENDING_WEIGHTS t))) y))"

text \<open>The vector whose five components are the literal \<open>3.1\<close>.\<close>

definition all_3_1 :: DoubleScores where
  "all_3_1 = \<lparr>O_num = lit 3.1, C_num = lit 3.1, E_num = lit 3.1, A_num = lit 3.1, N_num = lit 3.1\<rparr>"

section \<open>Phase 2 behavioral scoring (lib/scoring/behavioral.ts)\<close>

text \<open>
  Field names that two interfaces share are told apart: \<open>PathRecord.delivery_id\<close> is
  \<open>path_delivery_id\<close>, \<open>LossEvent.type\<close> and \<open>LossEvent.timestamp_ms\<close> are \<open>loss_type\<close>
  and \<open>loss_timestamp_ms\<close>, \<open>BehavioralSignals.id\<close> is \<open>signal_id\<close>.
\<close>

datatype LossType = theft | tip_over | penalty



record PathRecord =
  actual_dist :: number
  optimal_dist :: number
  path_delivery_id :: number

record LossEvent =
  loss_type :: LossType
  loss_timestamp_ms :: number
  amount_lost :: number
  behavior_delta :: number


































section \<open>Properties\<close>

subsection \<open>Helper lemmas\<close>

lemma all_traits:
  "(\<forall>t. P t) \<longleftrightarrow> P Trait_O \<and> P Trait_C \<and> P Trait_E \<and> P Trait_A \<and> P Trait_N"
  by (metis OceanTrait.exhaust)

lemma clamp_pd_bounds:
  "0.02 \<le> min PD_MAX (max PD_MIN x) \<and> min PD_MAX (max PD_MIN x) \<le> 0.35"
  unfolding PD_MIN_def PD_MAX_def by (simp add: min_def max_def)

lemma computePD_bounds: "0.02 \<le> computePD s \<and> computePD s \<le> 0.35"
  unfolding computePD_def Let_def by (rule clamp_pd_bounds)

lemma applyProfileModifier_bounds:
  "0.02 \<le> applyProfileModifier pd m \<and> applyProfileModifier pd m \<le> 0.35"
  unfolding applyProfileModifier_def Let_def by (rule clamp_pd_bounds)

lemma riskContributions_bounds:
  assumes "\<forall>t. 1 \<le> at_trait s t \<and> at_trait s t \<le> 5"
  shows "\<forall>t. 0 \<le> at_trait (computeRiskContributions s) t
          \<and> at_trait (computeRiskContributions s) t \<le> 1"
  using assms by (simp add: all_traits computeRiskContributions_def)

lemma weightedRisk_bounds:
  assumes "\<forall>t. 1 \<le> at_trait s t \<and> at_trait s t \<le> 5"
  shows "0 \<le> computeWeightedRisk s \<and> computeWeightedRisk s \<le> 1"
proof -
  define r where "r = computeRiskContributions s"
  have b: "0 \<le> O_val r" "O_val r \<le> 1" "0 \<le> C_val r" "C_val r \<le> 1" "0 \<le> E_val r"
    "E_val r \<le> 1" "0 \<le> A_val r" "A_val r \<le> 1" "0 \<le> N_val r" "N_val r \<le> 1"
    using riskContributions_bounds [OF assms] unfolding r_def all_traits by simp_all
  have "computeWeightedRisk s =
      0.35 * C_val r + 0.25 * N_val r + 0.18 * A_val r + 0.12 * O_val r + 0.10 * E_val r"
    by (simp add: computeWeightedRisk_def TRAIT_WEIGHTS_def r_def Let_def)
  with b show ?thesis by simp
qed

subsection \<open>Loan decision\<close>

text \<open>
  C1. With a consistency index \<open>c\<close> present, \<open>determineLoanDecision\<close> decides in this
  order: \<open>overall c > 0.40\<close> gives manual_review, shown as pending_approval, whatever the
  PD; otherwise \<open>pd < 0.08\<close> gives approved, shown as approved; otherwise \<open>pd < 0.18\<close>
  gives pending_approval, shown as pending_approval; otherwise manual_review, shown as
  pending_approval. In particular \<open>overall = 0.45\<close> with \<open>pd = 0.05\<close> is manual_review,
  shown as pending_approval.
\<close>

theorem loan_decision_rules:
  "decision (determineLoanDecision toFixed pd rating (Some c)) =
     (if overall c > 0.40 then manual_review
      else if pd < 0.08 then approved
      else if pd < 0.18 then pending_approval
      else manual_review)
   \<and> userFacingDecision (determineLoanDecision toFixed pd rating (Some c)) =
     (if overall c > 0.40 then pending_approval
      else if pd < 0.08 then approved
      else if pd < 0.18 then pending_approval
      else pending_approval)
   \<and> decision (determineLoanDecision toFixed 0.05 rating
         (Some \<lparr>O_val = dO, C_val = dC, E_val = dE, A_val = dA, N_val = dN,
                overall = 0.45, flag = fl\<rparr>)) = manual_review
   \<and> userFacingDecision (determineLoanDecision toFixed 0.05 rating
         (Some \<lparr>O_val = dO, C_val = dC, E_val = dE, A_val = dA, N_val = dN,
                overall = 0.45, flag = fl\<rparr>)) = pending_approval"
  by (simp add: determineLoanDecision_def LOAN_THRESHOLDS_def Let_def)

text \<open>
  C2. For every PD, every risk rating and every consistency index, the absent one
  included, the user-facing decision of \<open>determineLoanDecision\<close> is approved or
  pending_approval, and none of the other values of the decision enumeration.
\<close>

theorem user_facing_two_values:
  "userFacingDecision (determineLoanDecision toFixed pd rating consistency) = approved
   \<or> userFacingDecision (determineLoanDecision toFixed pd rating consistency) = pending_approval"
  by (simp add: determineLoanDecision_def Let_def split: option.split)

subsection \<open>Risk model\<close>

text \<open>
  C3. For a trait vector with all five components in [1, 5], every risk contribution
  lies in [0, 1], the weighted risk lies in [0, 1] and the PD lies in [0.02, 0.35].
  The PD lies in [0.02, 0.35] for any trait vector at all, and so does
  \<open>applyProfileModifier pd modifier\<close> for every \<open>pd\<close> and \<open>modifier\<close>.
\<close>

theorem pd_bounds:
  "((\<forall>t. 1 \<le> at_trait scores t \<and> at_trait scores t \<le> 5) \<longrightarrow>
      (\<forall>t. 0 \<le> at_trait (computeRiskContributions scores) t
          \<and> at_trait (computeRiskContributions scores) t \<le> 1)
      \<and> 0 \<le> computeWeightedRisk scores \<and> computeWeightedRisk scores \<le> 1
      \<and> 0.02 \<le> computePD scores \<and> computePD scores \<le> 0.35)
   \<and> 0.02 \<le> computePD anyScores \<and> computePD anyScores \<le> 0.35
   \<and> 0.02 \<le> applyProfileModifier pd modifier \<and> applyProfileModifier pd modifier \<le> 0.35"
  using riskContributions_bounds [of scores] weightedRisk_bounds [of scores]
    computePD_bounds [of scores] computePD_bounds [of anyScores]
    applyProfileModifier_bounds [of pd modifier]
  by blast

theorem pd_bounds_witness:
  "(\<forall>t. 1 \<le> at_trait \<lparr>O_val = 3, C_val = 1, E_val = 3, A_val = 3, N_val = 5\<rparr> t
        \<and> at_trait \<lparr>O_val = 3, C_val = 1, E_val = 3, A_val = 3, N_val = 5\<rparr> t \<le> 5)
   \<and> computeWeightedRisk \<lparr>O_val = 3, C_val = 1, E_val = 3, A_val = 3, N_val = 5\<rparr> \<le> 1
   \<and> computePD \<lparr>O_val = 3, C_val = 1, E_val = 3, A_val = 3, N_val = 5\<rparr> \<le> 0.35
   \<and> computePD \<lparr>O_val = 100, C_val = -100, E_val = 100, A_val = 100, N_val = 100\<rparr> \<le> 0.35
   \<and> 0.02 \<le> applyProfileModifier 0.03 (-0.06)"
proof -
  have h: "\<forall>t. 1 \<le> at_trait \<lparr>O_val = 3, C_val = 1, E_val = 3, A_val = 3, N_val = 5\<rparr> t
        \<and> at_trait \<lparr>O_val = 3, C_val = 1, E_val = 3, A_val = 3, N_val = 5\<rparr> t \<le> 5"
    by (simp add: all_traits)
  with pd_bounds [of "\<lparr>O_val = 3, C_val = 1, E_val = 3, A_val = 3, N_val = 5\<rparr>"
      "\<lparr>O_val = 100, C_val = -100, E_val = 100, A_val = 100, N_val = 100\<rparr>" "0.03" "-0.06"]
  show ?thesis by blast
qed

subsection \<open>Scale conversion\<close>

text \<open>
  C9. For every raw score \<open>r\<close> in [1, 5], denormalising the normalised score gives
  \<open>r\<close> back, exactly.
\<close>

theorem normalize_roundtrip:
  "1 \<le> r \<Longrightarrow> r \<le> 5 \<Longrightarrow> denormalizeScore (normalizeScore r) = r"
  by (simp add: denormalizeScore_def normalizeScore_def field_simps)

theorem normalize_roundtrip_witness:
  "(1::real) \<le> 4.5 \<and> (4.5::real) \<le> 5 \<and> denormalizeScore (normalizeScore 4.5) = 4.5"
  using normalize_roundtrip [of "4.5"] by simp

subsection \<open>Blending and consistency\<close>

lemma perTraitLoop_at:
  "perTraitLoop p1 p2 t = Some \<bar>normalizeScore (at_trait p1 t) - at_trait p2 t\<bar>"
  by (cases t) (simp_all add: perTraitLoop_def perTraitStep_def traits_def Let_def)

lemma perTraitLoop_filled: "filled (perTraitLoop p1 p2)"
  by (simp add: filled_def traits_def perTraitLoop_at)


subsection \<open>Adaptive questioning\<close>

text \<open>
  C6. \<open>isAssessmentComplete\<close> is true when the count has reached \<open>maxQuestions\<close>;
  otherwise false when the count is below \<open>minQuestions\<close>; otherwise true exactly when
  every trait's variance is strictly below the threshold. It is monotone: true at
  \<open>(V, k)\<close> with \<open>k \<le> maxQuestions\<close>, it is true at \<open>(V', k')\<close> for every \<open>k' \<ge> k\<close>
  and every \<open>V'\<close> that is pointwise at most \<open>V\<close>, the other arguments fixed.
\<close>

theorem assessment_complete_monotone:
  "isAssessmentComplete V k thr minQ maxQ =
     (if k \<ge> maxQ then True
      else if k < minQ then False
      else (\<forall>t. at_trait V t < thr))
   \<and> (k \<le> maxQ \<and> isAssessmentComplete V k thr minQ maxQ \<and> k \<le> k'
        \<and> (\<forall>t. at_trait V' t \<le> at_trait V t)
      \<longrightarrow> isAssessmentComplete V' k' thr minQ maxQ)"
  by (auto simp add: isAssessmentComplete_def object_values_def all_traits)

theorem assessment_complete_monotone_witness:
  "(8::real) \<le> 15
   \<and> isAssessmentComplete \<lparr>O_val = 0.2, C_val = 0.1, E_val = 0.25, A_val = 0, N_val = 0.29\<rparr> 8 0.3 8 15
   \<and> (8::real) \<le> 9
   \<and> (\<forall>t. at_trait \<lparr>O_val = 0.2, C_val = 0.05, E_val = 0.1, A_val = 0, N_val = 0.2\<rparr> t
          \<le> at_trait \<lparr>O_val = 0.2, C_val = 0.1, E_val = 0.25, A_val = 0, N_val = 0.29\<rparr> t)
   \<and> isAssessmentComplete \<lparr>O_val = 0.2, C_val = 0.05, E_val = 0.1, A_val = 0, N_val = 0.2\<rparr> 9 0.3 8 15"
proof -
  let ?V = "\<lparr>O_val = 0.2, C_val = 0.1, E_val = 0.25, A_val = 0, N_val = 0.29\<rparr> :: OceanScores"
  let ?V' = "\<lparr>O_val = 0.2, C_val = 0.05, E_val = 0.1, A_val = 0, N_val = 0.2\<rparr> :: OceanScores"
  have h: "(8::real) \<le> 15 \<and> isAssessmentComplete ?V 8 0.3 8 15 \<and> (8::real) \<le> 9
      \<and> (\<forall>t. at_trait ?V' t \<le> at_trait ?V t)"
    by (simp add: isAssessmentComplete_def object_values_def all_traits)
  with assessment_complete_monotone [of ?V 8 "0.3" 8 15 9 ?V']
  show ?thesis by blast
qed

lemma set_traits: "set traits = UNIV"
  using OceanTrait.exhaust by (auto simp: traits_def)

lemma select_foldl_inv:
  "foldl (selectStep v) (m, d) ts = (m', r) \<Longrightarrow>
     m \<le> m' \<and> (\<forall>t\<in>set ts. at_trait v t \<le> m') \<and>
     ((m' = m \<and> r = d) \<or>
      (m < m' \<and> r \<in> set ts \<and> at_trait v r = m' \<and>
       (\<forall>t\<in>set (takeWhile (\<lambda>u. u \<noteq> r) ts). at_trait v t < m')))"
proof (induction ts arbitrary: m d)
  case Nil
  then show ?case by simp
next
  case (Cons t ts)
  show ?case
  proof (cases "at_trait v t > m")
    case True
    then have "selectStep v (m, d) t = (at_trait v t, t)"
      by (simp add: selectStep_def)
    with Cons.prems have "foldl (selectStep v) (at_trait v t, t) ts = (m', r)"
      by simp
    from Cons.IH [OF this] True show ?thesis by auto
  next
    case False
    then have "selectStep v (m, d) t = (m, d)"
      by (simp add: selectStep_def)
    with Cons.prems have "foldl (selectStep v) (m, d) ts = (m', r)"
      by simp
    from Cons.IH [OF this] False show ?thesis by auto
  qed
qed

lemma select_first_max:
  "((\<exists>t. -1 < at_trait v t) \<longrightarrow>
      (\<forall>t. at_trait v t \<le> at_trait v (selectHighestVarianceTrait v))
      \<and> (\<forall>t\<in>set (takeWhile (\<lambda>u. u \<noteq> selectHighestVarianceTrait v) traits).
            at_trait v t < at_trait v (selectHighestVarianceTrait v)))
   \<and> (-1 < x \<and> (\<forall>t. at_trait v t = x) \<longrightarrow> selectHighestVarianceTrait v = Trait_O)
   \<and> ((\<forall>t. at_trait v t \<le> -1) \<longrightarrow> selectHighestVarianceTrait v = Trait_C)"
proof -
  obtain m' r where fr: "foldl (selectStep v) (-1, Trait_C) traits = (m', r)"
    by (cases "foldl (selectStep v) (-1, Trait_C) traits") auto
  then have r: "selectHighestVarianceTrait v = r"
    by (simp add: selectHighestVarianceTrait_def)
  note inv = select_foldl_inv [OF fr, unfolded set_traits]
  from inv have le: "\<forall>t. at_trait v t \<le> m'" by simp
  from inv have alt: "(m' = -1 \<and> r = Trait_C) \<or>
      (-1 < m' \<and> at_trait v r = m' \<and>
       (\<forall>t\<in>set (takeWhile (\<lambda>u. u \<noteq> r) traits). at_trait v t < m'))"
    by simp
  have a: "(\<exists>t. -1 < at_trait v t) \<longrightarrow>
      (\<forall>t. at_trait v t \<le> at_trait v r)
      \<and> (\<forall>t\<in>set (takeWhile (\<lambda>u. u \<noteq> r) traits). at_trait v t < at_trait v r)"
  proof
    assume "\<exists>t. -1 < at_trait v t"
    then obtain t where "-1 < at_trait v t" ..
    with le have "-1 < m'" by (metis less_le_trans)
    with alt have "at_trait v r = m'"
      and "\<forall>t\<in>set (takeWhile (\<lambda>u. u \<noteq> r) traits). at_trait v t < m'"
      by auto
    with le show "(\<forall>t. at_trait v t \<le> at_trait v r)
      \<and> (\<forall>t\<in>set (takeWhile (\<lambda>u. u \<noteq> r) traits). at_trait v t < at_trait v r)"
      by simp
  qed
  have c: "(\<forall>t. at_trait v t \<le> -1) \<longrightarrow> r = Trait_C"
  proof
    assume "\<forall>t. at_trait v t \<le> -1"
    then have "at_trait v r \<le> -1" ..
    with alt show "r = Trait_C" by auto
  qed
  have b: "-1 < x \<and> (\<forall>t. at_trait v t = x) \<longrightarrow> r = Trait_O"
  proof (intro impI, elim conjE)
    assume x: "-1 < x" and eq: "\<forall>t. at_trait v t = x"
    then have "\<exists>t. -1 < at_trait v t" by auto
    with a have "\<forall>t\<in>set (takeWhile (\<lambda>u. u \<noteq> r) traits). at_trait v t < at_trait v r"
      by blast
    with eq have "takeWhile (\<lambda>u. u \<noteq> r) traits = []"
      by (cases "takeWhile (\<lambda>u. u \<noteq> r) traits") auto
    then show "r = Trait_O" by (simp add: traits_def split: if_splits)
  qed
  from a b c show ?thesis unfolding r by blast
qed

text \<open>
  The maps that \<open>computeTraitVariances\<close> produces hold no negative variance, so on them
  the result is always the first trait of maximal variance, and the starting default
  is never what is returned.
\<close>

lemma foldl_add_nonneg:
  "0 \<le> (acc::real) \<Longrightarrow> \<forall>v\<in>set vs. 0 \<le> v \<Longrightarrow> 0 \<le> foldl (\<lambda>sum v. sum + v) acc vs"
  by (induction vs arbitrary: acc) simp_all

lemma variance_nonneg: "0 \<le> variance vs"
proof (cases "length vs < 2")
  case True
  then show ?thesis by (simp add: variance_def)
next
  case False
  have "0 \<le> foldl (\<lambda>sum v. sum + v) 0 (map (\<lambda>v. (v - m) ^ 2) vs)" for m :: real
    by (rule foldl_add_nonneg) auto
  with False show ?thesis by (simp add: variance_def Let_def)
qed

lemma computeTraitVariances_nonneg: "0 \<le> at_trait (computeTraitVariances rs) t"
  by (cases t) (simp_all add: computeTraitVariances_def Let_def variance_nonneg)

lemma computeTraitVariances_initial: "computeTraitVariances [] = initialVariances"
  by (simp add: computeTraitVariances_def collectScores_def variance_def initialVariances_def)

lemma select_on_computed_variances:
  "(\<forall>t. at_trait (computeTraitVariances rs) t
        \<le> at_trait (computeTraitVariances rs) (selectHighestVarianceTrait (computeTraitVariances rs)))
   \<and> (\<forall>t\<in>set (takeWhile (\<lambda>u. u \<noteq> selectHighestVarianceTrait (computeTraitVariances rs)) traits).
        at_trait (computeTraitVariances rs) t
        < at_trait (computeTraitVariances rs) (selectHighestVarianceTrait (computeTraitVariances rs)))"
proof -
  have "-1 < at_trait (computeTraitVariances rs) Trait_O"
    using computeTraitVariances_nonneg [of rs Trait_O] by simp
  then have "\<exists>t. -1 < at_trait (computeTraitVariances rs) t" ..
  with select_first_max [of "computeTraitVariances rs" 0] show ?thesis by blast
qed

text \<open>
  C5 (as amended). When at least one variance exceeds -1, as in every map of
  non-negative variances, \<open>selectHighestVarianceTrait\<close> returns a trait of maximal
  variance, the first such trait in the order O, C, E, A, N: every trait before it in
  that order has a strictly smaller variance. So when all five variances are equal and
  above -1, the initial state included, the result is O. The default C is the result
  when no variance exceeds -1.
\<close>

theorem select_highest_variance:
  "((\<exists>t. -1 < at_trait v t) \<longrightarrow>
      (\<forall>t. at_trait v t \<le> at_trait v (selectHighestVarianceTrait v))
      \<and> (\<forall>t\<in>set (takeWhile (\<lambda>u. u \<noteq> selectHighestVarianceTrait v) traits).
            at_trait v t < at_trait v (selectHighestVarianceTrait v)))
   \<and> (-1 < x \<and> (\<forall>t. at_trait v t = x) \<longrightarrow> selectHighestVarianceTrait v = Trait_O)
   \<and> ((\<forall>t. at_trait v t \<le> -1) \<longrightarrow> selectHighestVarianceTrait v = Trait_C)"
  by (rule select_first_max)

text \<open>
  The specification's wording of C5 fails on the code: on the initial map, all five
  variances 1.0, the result is O and not the default C; and on a map whose variances
  are all at most -1 the default C is returned although its variance is not maximal.
\<close>

theorem select_highest_variance_counterexample:
  "selectHighestVarianceTrait initialVariances \<noteq> Trait_C
   \<and> at_trait \<lparr>O_val = -2, C_val = -3, E_val = -2, A_val = -2, N_val = -2\<rparr>
        (selectHighestVarianceTrait \<lparr>O_val = -2, C_val = -3, E_val = -2, A_val = -2, N_val = -2\<rparr>)
      < at_trait \<lparr>O_val = -2, C_val = -3, E_val = -2, A_val = -2, N_val = -2\<rparr> Trait_O"
  by (simp add: selectHighestVarianceTrait_def selectStep_def traits_def initialVariances_def)

theorem select_highest_variance_witness:
  "-1 < at_trait \<lparr>O_val = 0.2, C_val = 0.7, E_val = 0.7, A_val = 0.1, N_val = 0.7\<rparr> Trait_C
   \<and> selectHighestVarianceTrait \<lparr>O_val = 0.2, C_val = 0.7, E_val = 0.7, A_val = 0.1, N_val = 0.7\<rparr> = Trait_C
   \<and> (\<forall>t. at_trait \<lparr>O_val = 0.2, C_val = 0.7, E_val = 0.7, A_val = 0.1, N_val = 0.7\<rparr> t \<le> 0.7)
   \<and> -1 < (1::real) \<and> (\<forall>t. at_trait initialVariances t = 1)
   \<and> selectHighestVarianceTrait initialVariances = Trait_O
   \<and> (\<forall>t. at_trait \<lparr>O_val = -2, C_val = -3, E_val = -2, A_val = -2, N_val = -2\<rparr> t \<le> -1)
   \<and> selectHighestVarianceTrait \<lparr>O_val = -2, C_val = -3, E_val = -2, A_val = -2, N_val = -2\<rparr> = Trait_C"
proof -
  let ?v = "\<lparr>O_val = 0.2, C_val = 0.7, E_val = 0.7, A_val = 0.1, N_val = 0.7\<rparr> :: OceanScores"
  let ?n = "\<lparr>O_val = -2, C_val = -3, E_val = -2, A_val = -2, N_val = -2\<rparr> :: OceanScores"
  have h1: "\<exists>t. -1 < at_trait ?v t" by (rule exI [of _ Trait_C]) simp
  have sel: "selectHighestVarianceTrait ?v = Trait_C"
    by (simp add: selectHighestVarianceTrait_def selectStep_def traits_def)
  have m: "\<forall>t. at_trait ?v t \<le> at_trait ?v (selectHighestVarianceTrait ?v)"
    using select_highest_variance [of ?v 1] h1 by blast
  have h2: "-1 < (1::real) \<and> (\<forall>t. at_trait initialVariances t = 1)"
    by (simp add: all_traits initialVariances_def)
  have e: "selectHighestVarianceTrait initialVariances = Trait_O"
    using select_highest_variance [of initialVariances 1] h2 by blast
  have h3: "\<forall>t. at_trait ?n t \<le> -1" by (simp add: all_traits)
  have n: "selectHighestVarianceTrait ?n = Trait_C"
    using select_highest_variance [of ?n 1] h3 by blast
  from m sel h2 e h3 n show ?thesis by simp
qed

subsection \<open>Worked scenarios of the risk model\<close>

text \<open>
  C8 (as amended). With modifier 0, on the trait vector O 3, C 5, E 3, A 3, N 1 the risk
  contributions of C and N are 0, the weighted risk is 0.20, the PD is 0.086 and the
  rating is moderate; on O 3, C 1, E 3, A 3, N 5 the risk contributions of C and N are
  1, the weighted risk is 0.80, the PD is 0.284, below the ceiling, and the rating is
  elevated.
\<close>

theorem full_pd_scenarios:
  "calculateFullPD \<lparr>O_val = 3, C_val = 5, E_val = 3, A_val = 3, N_val = 1\<rparr> 0 =
     \<lparr>riskContributions = \<lparr>O_val = 0.5, C_val = 0, E_val = 0.5, A_val = 0.5, N_val = 0\<rparr>,
      weightedRisk = 0.20, pdRaw = 0.086, pdModified = 0.086, riskRating = moderate\<rparr>
   \<and> calculateFullPD \<lparr>O_val = 3, C_val = 1, E_val = 3, A_val = 3, N_val = 5\<rparr> 0 =
     \<lparr>riskContributions = \<lparr>O_val = 0.5, C_val = 1, E_val = 0.5, A_val = 0.5, N_val = 1\<rparr>,
      weightedRisk = 0.80, pdRaw = 0.284, pdModified = 0.284, riskRating = elevated\<rparr>"
  by (simp add: calculateFullPD_def computeRiskContributions_def computeWeightedRisk_def
      computePD_def applyProfileModifier_def getRiskRating_def TRAIT_WEIGHTS_def PD_MIN_def
      PD_MAX_def PD_RANGE_def RISK_THRESHOLDS_def Let_def)

text \<open>
  The specification's figures for the first scenario fail on the code: the weighted
  risk is not 0.08, the PD is not 0.0464 and the rating is not low.
\<close>

theorem full_pd_scenarios_counterexample:
  "weightedRisk (calculateFullPD \<lparr>O_val = 3, C_val = 5, E_val = 3, A_val = 3, N_val = 1\<rparr> 0) \<noteq> 0.08
   \<and> pdModified (calculateFullPD \<lparr>O_val = 3, C_val = 5, E_val = 3, A_val = 3, N_val = 1\<rparr> 0) \<noteq> 0.0464
   \<and> riskRating (calculateFullPD \<lparr>O_val = 3, C_val = 5, E_val = 3, A_val = 3, N_val = 1\<rparr> 0) \<noteq> low"
  by (simp add: calculateFullPD_def computeRiskContributions_def computeWeightedRisk_def
      computePD_def applyProfileModifier_def getRiskRating_def TRAIT_WEIGHTS_def PD_MIN_def
      PD_MAX_def PD_RANGE_def RISK_THRESHOLDS_def Let_def)

subsection \<open>Rounding to double precision\<close>

lemma ulp_pos: "0 < ulp x"
  by (simp add: ulp_def)

lemma round_even_disj:
  "(round_even x = \<lfloor>x\<rfloor> \<and> x - real_of_int \<lfloor>x\<rfloor> \<le> 1 / 2)
   \<or> (round_even x = \<lfloor>x\<rfloor> + 1 \<and> x - real_of_int \<lfloor>x\<rfloor> \<ge> 1 / 2)"
proof -
  consider "x - real_of_int \<lfloor>x\<rfloor> < 1 / 2" | "x - real_of_int \<lfloor>x\<rfloor> > 1 / 2"
    | "x - real_of_int \<lfloor>x\<rfloor> = 1 / 2" by linarith
  then show ?thesis
  proof cases
    case 1
    then show ?thesis by (simp add: round_even_def Let_def)
  next
    case 2
    then show ?thesis by (simp add: round_even_def Let_def)
  next
    case 3
    then show ?thesis by (simp add: round_even_def Let_def)
  qed
qed

lemma round_even_cases:
  obtains (down) "round_even x = \<lfloor>x\<rfloor>" "x - real_of_int \<lfloor>x\<rfloor> \<le> 1 / 2"
  | (up) "round_even x = \<lfloor>x\<rfloor> + 1" "x - real_of_int \<lfloor>x\<rfloor> \<ge> 1 / 2"
  using round_even_disj [of x] by blast

lemma round_even_le: "x \<le> real_of_int N \<Longrightarrow> round_even x \<le> N"
proof (cases x rule: round_even_cases)
  case down
  assume "x \<le> real_of_int N"
  then have "\<lfloor>x\<rfloor> \<le> N" by (simp add: floor_le_iff)
  with down show ?thesis by simp
next
  case up
  assume "x \<le> real_of_int N"
  with up(2) have "real_of_int \<lfloor>x\<rfloor> < real_of_int N" by linarith
  then have "\<lfloor>x\<rfloor> < N" by simp
  with up show ?thesis by simp
qed

lemma round_even_ge: "real_of_int N \<le> x \<Longrightarrow> N \<le> round_even x"
proof (cases x rule: round_even_cases)
  case down
  assume "real_of_int N \<le> x"
  then have "N \<le> \<lfloor>x\<rfloor>" by (simp add: le_floor_iff)
  with down show ?thesis by simp
next
  case up
  assume "real_of_int N \<le> x"
  then have "N \<le> \<lfloor>x\<rfloor>" by (simp add: le_floor_iff)
  with up show ?thesis by simp
qed

lemma round_even_err: "\<bar>real_of_int (round_even x) - x\<bar> \<le> 1 / 2"
proof (cases x rule: round_even_cases)
  case down
  have "real_of_int \<lfloor>x\<rfloor> \<le> x" by simp
  with down show ?thesis by simp
next
  case up
  have "x < real_of_int \<lfloor>x\<rfloor> + 1" by linarith
  with up show ?thesis by simp
qed

lemma round_even_nearest:
  assumes "real_of_int m - 1 / 2 < x" "x < real_of_int m + 1 / 2"
  shows "round_even x = m"
proof -
  have e: "\<bar>real_of_int (round_even x) - x\<bar> \<le> 1 / 2" by (rule round_even_err)
  with assms have "\<bar>real_of_int (round_even x) - real_of_int m\<bar> < 1" by linarith
  then have "\<bar>real_of_int (round_even x - m)\<bar> < 1" by simp
  then have "\<bar>round_even x - m\<bar> < 1" by linarith
  then show ?thesis by simp
qed

lemma round_even_of_int: "round_even (real_of_int n) = n"
  by (rule round_even_nearest) simp_all

lemma round_even_minus: "round_even (- x) = - round_even x"
proof (cases "x \<in> \<int>")
  case True
  then obtain n where "x = real_of_int n" by (auto elim: Ints_cases)
  then have "round_even (- x) = - n" "round_even x = n"
    using round_even_of_int [of "- n"] round_even_of_int [of n] by simp_all
  then show ?thesis by simp
next
  case False
  then have ne: "x \<noteq> real_of_int \<lfloor>x\<rfloor>" by (metis Ints_of_int)
  with False have f: "\<lfloor>- x\<rfloor> = - \<lfloor>x\<rfloor> - 1"
    by (simp add: floor_minus ceiling_altdef)
  have b: "real_of_int \<lfloor>x\<rfloor> \<le> x" "x < real_of_int \<lfloor>x\<rfloor> + 1" by linarith+
  show ?thesis
    unfolding round_even_def Let_def f using b ne by (auto split: if_splits)
qed

subsubsection \<open>Exponent and unit in the last place\<close>

lemma expo_minus: "expo (- x) = expo x"
  by (simp add: expo_def)

lemma ulp_minus: "ulp (- x) = ulp x"
  by (simp add: ulp_def expo_minus)

lemma rnd_minus: "rnd (- x) = - rnd x"
  by (simp add: rnd_def ulp_minus round_even_minus)

lemma expo_ge: "-1022 \<le> expo x"
  by (simp add: expo_def)

lemma expo_eq:
  assumes "2 powr real_of_int k \<le> \<bar>x\<bar>" "\<bar>x\<bar> < 2 powr real_of_int (k + 1)" "-1022 \<le> k"
  shows "expo x = k"
proof -
  have "0 < \<bar>x\<bar>" using assms(1) by (smt (verit) powr_gt_zero)
  then have "\<lfloor>log 2 \<bar>x\<bar>\<rfloor> = k"
    using assms(1,2) by (simp add: floor_log_eq_powr_iff)
  with assms(3) show ?thesis by (simp add: expo_def)
qed

lemma expo_normal:
  assumes "x \<noteq> 0" "-1022 < expo x"
  shows "2 powr real_of_int (expo x) \<le> \<bar>x\<bar>"
proof -
  from assms(2) have "expo x = \<lfloor>log 2 \<bar>x\<bar>\<rfloor>" by (simp add: expo_def max_def split: if_splits)
  moreover have "0 < \<bar>x\<bar>" using assms(1) by simp
  ultimately show ?thesis
    using floor_log_eq_powr_iff [of "\<bar>x\<bar>" 2 "expo x"] by simp
qed

lemma expo_upper:
  assumes "x \<noteq> 0"
  shows "\<bar>x\<bar> < 2 powr real_of_int (expo x + 1)"
proof -
  have p: "0 < \<bar>x\<bar>" using assms by simp
  define l where "l = \<lfloor>log 2 \<bar>x\<bar>\<rfloor>"
  have "\<bar>x\<bar> < 2 powr real_of_int (l + 1)"
    using floor_log_eq_powr_iff [OF p, of 2 l] by (simp add: l_def)
  also have "\<dots> \<le> 2 powr real_of_int (expo x + 1)"
    by (rule powr_mono) (simp_all add: expo_def l_def)
  finally show ?thesis .
qed

subsubsection \<open>Rounding against representable bounds\<close>

lemma pow2_int: "0 \<le> a \<Longrightarrow> 2 powr real_of_int a = real_of_int (2 ^ nat a)"
  by (simp add: powr_real_of_int)

lemma pow2_split: "2 powr real_of_int a = 2 powr real_of_int (a - b) * 2 powr real_of_int b"
  by (simp flip: powr_add)

lemma rnd_eq: "x \<noteq> 0 \<Longrightarrow> rnd x = real_of_int (round_even (x / ulp x)) * ulp x"
  by (simp add: rnd_def)

lemma repr_below_ulp:
  assumes "y = real_of_int m * 2 powr real_of_int ey" "\<bar>m\<bar> < 2 ^ 53" "ey + 53 \<le> e"
  shows "y < 2 powr real_of_int e"
proof -
  have "m < 2 ^ 53" using assms(2) by simp
  then have "real_of_int m < real_of_int (2 ^ 53)" by (simp only: of_int_less_iff)
  then have "real_of_int m < 2 ^ 53" by simp
  then have "y < 2 ^ 53 * 2 powr real_of_int ey"
    unfolding assms(1) by (simp add: mult_strict_right_mono)
  also have "\<dots> = 2 powr real_of_int (ey + 53)"
    by (simp add: powr_add)
  also have "\<dots> \<le> 2 powr real_of_int e"
    using assms(3) by (intro powr_mono) simp_all
  finally show ?thesis .
qed

lemma repr_multiple:
  assumes "y = real_of_int m * 2 powr real_of_int ey" "e - 52 \<le> ey"
  shows "y = real_of_int (m * 2 ^ nat (ey - (e - 52))) * 2 powr real_of_int (e - 52)"
proof -
  have "2 powr real_of_int ey = real_of_int (2 ^ nat (ey - (e - 52))) * 2 powr real_of_int (e - 52)"
    using pow2_split [of ey "e - 52"] pow2_int [of "ey - (e - 52)"] assms(2) by simp
  then show ?thesis unfolding assms(1) by simp
qed

lemma rnd_le_repr_pos:
  assumes "0 < x" "x \<le> y" "repr y"
  shows "rnd x \<le> y"
proof -
  from assms(3) obtain m ey where y: "y = real_of_int m * 2 powr real_of_int ey"
    and m: "\<bar>m\<bar> < 2 ^ 53" and ey: "-1074 \<le> ey"
    unfolding repr_def by blast
  define e where "e = expo x"
  have u: "ulp x = 2 powr real_of_int (e - 52)" by (simp add: ulp_def e_def)
  have x0: "x \<noteq> 0" using assms(1) by simp
  show ?thesis
  proof (cases "e - 52 \<le> ey")
    case True
    define N where "N = m * 2 ^ nat (ey - (e - 52))"
    have yN: "y = real_of_int N * ulp x"
      unfolding N_def u by (rule repr_multiple [OF y True])
    have "x / ulp x \<le> real_of_int N"
      using assms(2) ulp_pos [of x] unfolding yN by (simp add: pos_divide_le_eq)
    then have "round_even (x / ulp x) \<le> N" by (rule round_even_le)
    then have "real_of_int (round_even (x / ulp x)) * ulp x \<le> real_of_int N * ulp x"
      using ulp_pos [of x] by (simp add: mult_right_mono)
    then show ?thesis by (simp add: rnd_eq [OF x0] yN)
  next
    case False
    then have "ey + 53 \<le> e" by simp
    from repr_below_ulp [OF y m this] have "y < 2 powr real_of_int e" .
    moreover have "-1022 < expo x" using False ey by (simp add: e_def)
    then have "2 powr real_of_int e \<le> \<bar>x\<bar>" unfolding e_def by (rule expo_normal [OF x0])
    ultimately show ?thesis using assms(1,2) by simp
  qed
qed

lemma rnd_ge_repr_pos:
  assumes "0 < y" "y \<le> x" "repr y"
  shows "y \<le> rnd x"
proof -
  from assms(3) obtain m ey where y: "y = real_of_int m * 2 powr real_of_int ey"
    and m: "\<bar>m\<bar> < 2 ^ 53" and ey: "-1074 \<le> ey"
    unfolding repr_def by blast
  define e where "e = expo x"
  have u: "ulp x = 2 powr real_of_int (e - 52)" by (simp add: ulp_def e_def)
  have x0: "x \<noteq> 0" using assms(1,2) by simp
  show ?thesis
  proof (cases "e - 52 \<le> ey")
    case True
    define N where "N = m * 2 ^ nat (ey - (e - 52))"
    have yN: "y = real_of_int N * ulp x"
      unfolding N_def u by (rule repr_multiple [OF y True])
    have "real_of_int N \<le> x / ulp x"
      using assms(2) ulp_pos [of x] unfolding yN by (simp add: pos_le_divide_eq)
    then have "N \<le> round_even (x / ulp x)" by (rule round_even_ge)
    then have "real_of_int N * ulp x \<le> real_of_int (round_even (x / ulp x)) * ulp x"
      using ulp_pos [of x] by (simp add: mult_right_mono)
    then show ?thesis by (simp add: rnd_eq [OF x0] yN)
  next
    case False
    then have "ey + 53 \<le> e" by simp
    from repr_below_ulp [OF y m this] have lt: "y < 2 powr real_of_int e" .
    have "-1022 < expo x" using False ey by (simp add: e_def)
    then have ge: "2 powr real_of_int e \<le> \<bar>x\<bar>" unfolding e_def by (rule expo_normal [OF x0])
    have p: "2 powr real_of_int e = real_of_int (2 ^ 52) * ulp x"
      unfolding u using pow2_split [of e "e - 52"] by simp
    have "real_of_int (2 ^ 52) \<le> x / ulp x"
      using ge assms(1,2) ulp_pos [of x] unfolding p by (simp add: pos_le_divide_eq)
    then have "2 ^ 52 \<le> round_even (x / ulp x)" by (rule round_even_ge)
    then have "real_of_int (2 ^ 52) * ulp x \<le> real_of_int (round_even (x / ulp x)) * ulp x"
      using ulp_pos [of x] by (intro mult_right_mono) simp_all
    then have "2 powr real_of_int e \<le> rnd x" by (simp add: rnd_eq [OF x0] p)
    with lt show ?thesis by simp
  qed
qed

lemma repr_minus: "repr (- y) = repr y"
proof -
  have "repr (- z)" if "repr z" for z
  proof -
    from that obtain m e where "z = real_of_int m * 2 powr real_of_int e" "\<bar>m\<bar> < 2 ^ 53"
      "-1074 \<le> e" "e \<le> 971" unfolding repr_def by blast
    then have "- z = real_of_int (- m) * 2 powr real_of_int e \<and> \<bar>- m\<bar> < 2 ^ 53
        \<and> -1074 \<le> e \<and> e \<le> 971" by simp
    then show ?thesis unfolding repr_def by blast
  qed
  from this [of y] this [of "- y"] show ?thesis by auto
qed

lemma rnd_nonneg: "0 \<le> x \<Longrightarrow> 0 \<le> rnd x"
proof (cases "x = 0")
  case True
  then show ?thesis by (simp add: rnd_def)
next
  case False
  assume "0 \<le> x"
  then have "real_of_int 0 \<le> x / ulp x" using ulp_pos [of x] by simp
  then have "0 \<le> round_even (x / ulp x)" by (rule round_even_ge)
  then show ?thesis using ulp_pos [of x] by (simp add: rnd_eq [OF False])
qed

lemma rnd_le_repr:
  assumes "x \<le> y" "repr y"
  shows "rnd x \<le> y"
proof -
  consider "0 < x" | "x \<le> 0" "0 \<le> y" | "x \<le> 0" "y < 0" by linarith
  then show ?thesis
  proof cases
    case 1
    then show ?thesis using assms by (rule rnd_le_repr_pos)
  next
    case 2
    have "0 \<le> rnd (- x)" using 2(1) by (intro rnd_nonneg) simp
    then show ?thesis using 2(2) by (simp add: rnd_minus)
  next
    case 3
    have "- y \<le> rnd (- x)"
      using 3 assms by (intro rnd_ge_repr_pos) (simp_all add: repr_minus)
    then show ?thesis by (simp add: rnd_minus)
  qed
qed

lemma rnd_ge_repr:
  assumes "y \<le> x" "repr y"
  shows "y \<le> rnd x"
proof -
  have "rnd (- x) \<le> - y" using assms by (intro rnd_le_repr) (simp_all add: repr_minus)
  then show ?thesis by (simp add: rnd_minus)
qed

lemma repr_bound: "repr y \<Longrightarrow> \<bar>y\<bar> < overflow_threshold"
proof -
  assume "repr y"
  then obtain m e where y: "y = real_of_int m * 2 powr real_of_int e" and m: "\<bar>m\<bar> < 2 ^ 53"
    and e: "e \<le> 971" unfolding repr_def by blast
  have "\<bar>y\<bar> = real_of_int \<bar>m\<bar> * 2 powr real_of_int e" by (simp add: y abs_mult)
  then have "\<bar>y\<bar> < 2 powr real_of_int 1024"
    using repr_below_ulp [of "\<bar>y\<bar>" "\<bar>m\<bar>" e 1024] m e by simp
  then show ?thesis unfolding overflow_threshold_def by (simp only: pow2_int) simp
qed

lemma fl_between:
  assumes "lo \<le> x" "x \<le> hi" "repr lo" "repr hi"
  shows "\<exists>r. fl64 x = Fin r \<and> lo \<le> r \<and> r \<le> hi"
proof -
  have "lo \<le> rnd x" "rnd x \<le> hi"
    using assms by (auto intro: rnd_ge_repr rnd_le_repr)
  moreover have "\<bar>lo\<bar> < overflow_threshold" "\<bar>hi\<bar> < overflow_threshold"
    using assms(3,4) by (auto dest: repr_bound)
  ultimately show ?thesis by (auto simp add: fl64_def Let_def)
qed




lemma fl_repr: "repr x \<Longrightarrow> fl64 x = Fin x"
  using fl_between [of x x x] by auto

lemma reprI:
  "y = real_of_int m * 2 powr real_of_int e \<Longrightarrow> \<bar>m\<bar> < 2 ^ 53 \<Longrightarrow> -1074 \<le> e \<Longrightarrow> e \<le> 971
   \<Longrightarrow> repr y"
  unfolding repr_def by blast

lemma repr_0: "repr 0"
  by (rule reprI [of _ 0 0]) simp_all

lemma repr_of_int: "\<bar>m\<bar> < 2 ^ 53 \<Longrightarrow> repr (real_of_int m)"
  by (rule reprI [of _ m 0]) simp_all


subsubsection \<open>Evaluating a rounding, and its error\<close>


lemma rnd_error:
  assumes "\<bar>x\<bar> < 2 powr real_of_int k" "-1021 \<le> k"
  shows "\<bar>rnd x - x\<bar> \<le> 2 powr real_of_int (k - 54)"
proof (cases "x = 0")
  case True
  then show ?thesis by (simp add: rnd_def)
next
  case False
  then have p: "0 < \<bar>x\<bar>" by simp
  have "\<lfloor>log 2 \<bar>x\<bar>\<rfloor> < k"
  proof (rule ccontr)
    assume "\<not> \<lfloor>log 2 \<bar>x\<bar>\<rfloor> < k"
    then have "k \<le> \<lfloor>log 2 \<bar>x\<bar>\<rfloor>" by simp
    then have "real_of_int k \<le> log 2 \<bar>x\<bar>" by (simp only: le_floor_iff)
    then have "2 powr real_of_int k \<le> \<bar>x\<bar>" using p by (simp add: le_log_iff)
    with assms(1) show False by simp
  qed
  with assms(2) have "expo x \<le> k - 1" by (simp add: expo_def)
  then have "ulp x \<le> 2 powr real_of_int (k - 53)"
    unfolding ulp_def by (intro powr_mono) simp_all
  moreover have "\<bar>rnd x - x\<bar> \<le> ulp x / 2"
  proof -
    have "\<bar>real_of_int (round_even (x / ulp x)) - x / ulp x\<bar> * ulp x \<le> 1 / 2 * ulp x"
      using round_even_err [of "x / ulp x"] ulp_pos [of x] by (intro mult_right_mono) simp_all
    moreover have "\<bar>real_of_int (round_even (x / ulp x)) - x / ulp x\<bar> * ulp x = \<bar>rnd x - x\<bar>"
    proof -
      have "\<bar>real_of_int (round_even (x / ulp x)) - x / ulp x\<bar> * ulp x
          = \<bar>(real_of_int (round_even (x / ulp x)) - x / ulp x) * ulp x\<bar>"
        using ulp_pos [of x] by (simp add: abs_mult)
      also have "(real_of_int (round_even (x / ulp x)) - x / ulp x) * ulp x = rnd x - x"
        using ulp_pos [of x] False by (simp add: rnd_def left_diff_distrib)
      finally show ?thesis .
    qed
    ultimately show ?thesis by simp
  qed
  moreover have "2 powr real_of_int (k - 53) / 2 = 2 powr real_of_int (k - 54)"
    using pow2_split [of "k - 53" "k - 54"] by simp
  ultimately show ?thesis by linarith
qed

lemma repr_pow2:
  assumes "-1074 \<le> k" "k \<le> 1023"
  shows "repr (2 powr real_of_int k)"
proof (cases "k \<le> 971")
  case True
  show ?thesis by (rule reprI [of _ 1 k]) (use True assms in simp_all)
next
  case False
  have "2 powr real_of_int k = real_of_int (2 ^ nat (k - 971)) * 2 powr real_of_int 971"
    using pow2_split [of k 971] pow2_int [of "k - 971"] False by simp
  moreover have "(2::int) ^ nat (k - 971) \<le> 2 ^ 52"
    using assms(2) by (intro power_increasing) simp_all
  then have "\<bar>(2::int) ^ nat (k - 971)\<bar> < 2 ^ 53" by simp
  ultimately show ?thesis by (rule reprI) simp_all
qed

lemma fl_Fin_rnd: "fl64 x = Fin r \<Longrightarrow> r = rnd x"
  by (simp add: fl64_def Let_def split: if_splits)

lemma fl_facts:
  assumes "lo \<le> z" "z \<le> hi" "repr lo" "repr hi"
    and "\<bar>z\<bar> < 2 powr real_of_int k" "-1021 \<le> k"
  shows "\<exists>r. fl64 z = Fin r \<and> lo \<le> r \<and> r \<le> hi \<and> \<bar>r - z\<bar> \<le> 2 powr real_of_int (k - 54)"
proof -
  from fl_between [OF assms(1-4)] obtain r where r: "fl64 z = Fin r" "lo \<le> r" "r \<le> hi" by blast
  then have "r = rnd z" by (simp add: fl_Fin_rnd)
  with rnd_error [OF assms(5,6)] r show ?thesis by simp
qed

lemma prod_err:
  fixes a b a' b' :: real
  assumes "\<bar>a'\<bar> \<le> 1" "\<bar>b\<bar> \<le> 1" "\<bar>a' - a\<bar> \<le> ea" "\<bar>b' - b\<bar> \<le> eb"
  shows "\<bar>a' * b' - a * b\<bar> \<le> ea + eb"
proof -
  have "a' * b' - a * b = a' * (b' - b) + b * (a' - a)" by (simp add: algebra_simps)
  then have "\<bar>a' * b' - a * b\<bar> \<le> \<bar>a'\<bar> * \<bar>b' - b\<bar> + \<bar>b\<bar> * \<bar>a' - a\<bar>"
    by (metis abs_mult abs_triangle_ineq)
  also have "\<dots> \<le> 1 * \<bar>b' - b\<bar> + 1 * \<bar>a' - a\<bar>"
    using assms(1,2) by (intro add_mono mult_right_mono) simp_all
  finally show ?thesis using assms(3,4) by simp
qed

lemma round_even_tie:
  "x = real_of_int f + 1 / 2 \<Longrightarrow> round_even x = (if even f then f else f + 1)"
  by (simp add: round_even_def Let_def)

lemma fl_eval:
  assumes "2 powr real_of_int k \<le> \<bar>x\<bar>" "\<bar>x\<bar> < 2 powr real_of_int (k + 1)" "-1022 \<le> k" "k \<le> 1022"
    and "round_even (x / 2 powr real_of_int (k - 52)) = m"
  shows "fl64 x = Fin (real_of_int m * 2 powr real_of_int (k - 52))"
proof -
  have e: "expo x = k" using assms(1-3) by (rule expo_eq)
  have "x \<noteq> 0" using assms(1) by (smt (verit) powr_gt_zero)
  then have r: "rnd x = real_of_int m * 2 powr real_of_int (k - 52)"
    using assms(5) by (simp add: rnd_def ulp_def e)
  have "repr (2 powr real_of_int (k + 1))"
    using assms(3,4) by (intro repr_pow2) simp_all
  then have "repr (2 powr real_of_int (k + 1))" "repr (- (2 powr real_of_int (k + 1)))"
    by (simp_all only: repr_minus)
  moreover have "- (2 powr real_of_int (k + 1)) \<le> x" "x \<le> 2 powr real_of_int (k + 1)"
    using assms(2) by linarith+
  ultimately obtain q where "fl64 x = Fin q"
    using fl_between [of "- (2 powr real_of_int (k + 1))" x "2 powr real_of_int (k + 1)"] by blast
  with fl_Fin_rnd [OF this] r show ?thesis by simp
qed

lemma fl_exact:
  "x = real_of_int m * 2 powr real_of_int e \<Longrightarrow> \<bar>m\<bar> < 2 ^ 53 \<Longrightarrow> -1074 \<le> e \<Longrightarrow> e \<le> 971
   \<Longrightarrow> fl64 x = Fin x"
  by (rule fl_repr) (rule reprI)

lemma fl_step:
  assumes "lo \<le> z" "z \<le> hi" "repr lo" "repr hi"
    and "\<bar>z\<bar> < 2 powr real_of_int k" "-1021 \<le> k" "2 powr real_of_int (k - 54) \<le> eps"
  obtains q where "fl64 z = Fin q" "lo \<le> q" "q \<le> hi" "\<bar>q - z\<bar> \<le> eps"
  using fl_facts [OF assms(1-6)] assms(7) by force

lemmas repr_small =
  repr_0 repr_of_int [of 1, simplified] repr_of_int [of 2, simplified]
  repr_of_int [of 4, simplified] repr_of_int [of 8, simplified] repr_of_int [of 9, simplified]

subsection \<open>Numbers in the unit interval\<close>



subsection \<open>Blending in double precision\<close>

lemma blendLoop_at:
  "blendLoop p1 p2 t = Some (blendTrait t (num_at p1 t) (num_at p2 t))"
  by (cases t) (simp_all add: blendLoop_def blendStep_def traits_def Let_def blendTrait_def)

lemma blendScores_at: "num_at (blendScores p1 p2) t = blendTrait t (num_at p1 t) (num_at p2 t)"
  by (cases t) (simp_all add: blendScores_def asDoubleScores_def blendLoop_at)

lemma lit_3_1: "lit 3.1 = Fin (6980579422424269 / 2 ^ 51)"
proof -
  have "round_even (3.1 / 2 powr real_of_int (1 - 52)) = 6980579422424269"
    by (rule round_even_nearest) (simp_all add: powr_neg_numeral)
  from fl_eval [of 1 "3.1", OF _ _ _ _ this] show ?thesis
    by (simp add: lit_def powr_neg_numeral)
qed

lemma lit_0_45: "lit 0.45 = Fin (8106479329266893 / 2 ^ 54)"
proof -
  have "round_even (0.45 / 2 powr real_of_int (-2 - 52)) = 8106479329266893"
    by (rule round_even_nearest) (simp_all add: powr_neg_numeral)
  from fl_eval [of "-2" "0.45", OF _ _ _ _ this] show ?thesis
    by (simp add: lit_def powr_neg_numeral)
qed

lemma lit_0_55: "lit 0.55 = Fin (4953959590107546 / 2 ^ 53)"
proof -
  have "round_even (0.55 / 2 powr real_of_int (-1 - 52)) = 4953959590107546"
    by (rule round_even_nearest) (simp_all add: powr_neg_numeral)
  from fl_eval [of "-1" "0.55", OF _ _ _ _ this] show ?thesis
    by (simp add: lit_def powr_neg_numeral)
qed

lemma quarterOf_3_1: "quarterOf (lit 3.1) = Fin (4728779608739021 / 2 ^ 53)"
proof -
  have "fl64 (6980579422424269 / 2 ^ 51 + - 1) = Fin (6980579422424269 / 2 ^ 51 + - 1)"
    by (rule fl_exact [of _ 4728779608739021 "-51"]) (simp_all add: powr_neg_numeral)
  then have a: "js_sub (lit 3.1) (Fin 1) = Fin (4728779608739021 / 2 ^ 51)"
    by (simp add: lit_3_1 js_sub_def)
  have "fl64 (4728779608739021 / 2 ^ 51 / 4) = Fin (4728779608739021 / 2 ^ 51 / 4)"
    by (rule fl_exact [of _ 4728779608739021 "-53"]) (simp_all add: powr_neg_numeral)
  with a show ?thesis by (simp add: quarterOf_def)
qed

lemma normalize_3_1: "normalizeScore_d (lit 3.1) = Fin (4728779608739021 / 2 ^ 53)"
  using quarterOf_3_1 by (simp add: normalizeScore_d_def quarterOf_def)

lemma blendTrait_O_3_1:
  "blendTrait Trait_O (lit 3.1) (quarterOf (lit 3.1)) = Fin (6980579422424270 / 2 ^ 51)"
proof -
  let ?n = "4728779608739021 / 2 ^ 53 :: real"
  have "round_even (8106479329266893 / 2 ^ 54 * ?n / 2 powr real_of_int (-3 - 52))
      = 8511803295730238"
    by (rule round_even_nearest) (simp_all add: powr_neg_numeral)
  from fl_eval [of "-3" "8106479329266893 / 2 ^ 54 * ?n", OF _ _ _ _ this]
  have f1: "fl64 (8106479329266893 / 2 ^ 54 * ?n) = Fin (8511803295730238 / 2 ^ 55)"
    by (simp add: powr_neg_numeral)
  have p1: "js_mul (lit 0.45) (Fin ?n) = Fin (8511803295730238 / 2 ^ 55)"
    unfolding lit_0_45 js_mul.simps by (rule f1)
  have "round_even (4953959590107546 / 2 ^ 53 * ?n / 2 powr real_of_int (-2 - 52))
      = 5201657569612924"
    by (rule round_even_nearest) (simp_all add: powr_neg_numeral)
  from fl_eval [of "-2" "4953959590107546 / 2 ^ 53 * ?n", OF _ _ _ _ this]
  have f2: "fl64 (4953959590107546 / 2 ^ 53 * ?n) = Fin (5201657569612924 / 2 ^ 54)"
    by (simp add: powr_neg_numeral)
  have p2: "js_mul (lit 0.55) (Fin ?n) = Fin (5201657569612924 / 2 ^ 54)"
    unfolding lit_0_55 js_mul.simps by (rule f2)
  have "round_even ((8511803295730238 / 2 ^ 55 + 5201657569612924 / 2 ^ 54)
          / 2 powr real_of_int (-1 - 52))
      = (if even (4728779608739021::int) then 4728779608739021 else 4728779608739021 + 1)"
    by (rule round_even_tie) (simp add: powr_neg_numeral)
  then have "round_even ((8511803295730238 / 2 ^ 55 + 5201657569612924 / 2 ^ 54)
          / 2 powr real_of_int (-1 - 52)) = 4728779608739022"
    by simp
  from fl_eval [of "-1" "8511803295730238 / 2 ^ 55 + 5201657569612924 / 2 ^ 54", OF _ _ _ _ this]
  have f3: "fl64 (8511803295730238 / 2 ^ 55 + 5201657569612924 / 2 ^ 54)
      = Fin (4728779608739022 / 2 ^ 53)"
    by (simp add: powr_neg_numeral)
  have s: "js_add (Fin (8511803295730238 / 2 ^ 55)) (Fin (5201657569612924 / 2 ^ 54))
      = Fin (4728779608739022 / 2 ^ 53)"
    unfolding js_add.simps by (rule f3)
  have "fl64 (4728779608739022 / 2 ^ 53 * 4) = Fin (4728779608739022 / 2 ^ 53 * 4)"
    by (rule fl_exact [of _ 4728779608739022 "-51"]) (simp_all add: powr_neg_numeral)
  then have f4: "fl64 (4728779608739022 / 2 ^ 53 * 4) = Fin (4728779608739022 / 2 ^ 51)"
    by simp
  have d1: "js_mul (Fin (4728779608739022 / 2 ^ 53)) (Fin 4) = Fin (4728779608739022 / 2 ^ 51)"
    unfolding js_mul.simps by (rule f4)
  have "fl64 (1 + 4728779608739022 / 2 ^ 51) = Fin (1 + 4728779608739022 / 2 ^ 51)"
    by (rule fl_exact [of _ 6980579422424270 "-51"]) (simp_all add: powr_neg_numeral)
  then have f5: "fl64 (1 + 4728779608739022 / 2 ^ 51) = Fin (6980579422424270 / 2 ^ 51)"
    by simp
  have d2: "js_add (Fin 1) (Fin (4728779608739022 / 2 ^ 51)) = Fin (6980579422424270 / 2 ^ 51)"
    unfolding js_add.simps by (rule f5)
  show ?thesis
    by (simp only: blendTrait_def BLENDING_WEIGHTS.simps BlendingWeight.simps normalize_3_1
        quarterOf_3_1 p1 p2 s denormalizeScore_d_def d1 d2)
qed

lemma blend_close:
  fixes r w1 w2 :: real
  assumes r: "1 \<le> r" "r \<le> 5" and w: "0 \<le> w1" "0 \<le> w2" "w1 + w2 = 1"
  shows "\<exists>b. denormalizeScore_d
              (js_add (js_mul (lit w1) (normalizeScore_d (Fin r)))
                      (js_mul (lit w2) (quarterOf (Fin r)))) = Fin b
           \<and> \<bar>b - r\<bar> \<le> 1 / 10 ^ 14"
proof -
  define u :: real where "u = 1 / 2 ^ 54"
  define n0 where "n0 = (r - 1) / 4"
  have n0: "0 \<le> n0" "n0 \<le> 1" "r = 1 + 4 * n0" using r by (simp_all add: n0_def field_simps)
  obtain s1 where s1: "fl64 (r - 1) = Fin s1" "0 \<le> s1" "s1 \<le> 4" "\<bar>s1 - (r - 1)\<bar> \<le> 8 * u"
    using r by (rule_tac fl_step [of 0 "r - 1" 4 3 "8 * u"])
      (simp_all add: repr_small powr_neg_numeral u_def)
  obtain s2 where s2: "fl64 (s1 / 4) = Fin s2" "0 \<le> s2" "s2 \<le> 1" "\<bar>s2 - s1 / 4\<bar> \<le> 2 * u"
    using s1 by (rule_tac fl_step [of 0 "s1 / 4" 1 1 "2 * u"])
      (simp_all add: repr_small powr_neg_numeral u_def)
  have q: "quarterOf (Fin r) = Fin s2"
    using s1(1) s2(1) by (simp add: quarterOf_def js_sub_def)
  have nrm: "normalizeScore_d (Fin r) = Fin s2"
    using q s2(2,3) by (simp add: normalizeScore_d_def quarterOf_def)
  have e2: "\<bar>s2 - n0\<bar> \<le> 4 * u" using s1(4) s2(4) unfolding n0_def by argo
  obtain a1 where a1: "fl64 w1 = Fin a1" "0 \<le> a1" "a1 \<le> 1" "\<bar>a1 - w1\<bar> \<le> 2 * u"
    using w by (rule_tac fl_step [of 0 w1 1 1 "2 * u"])
      (simp_all add: repr_small powr_neg_numeral u_def)
  obtain a2 where a2: "fl64 w2 = Fin a2" "0 \<le> a2" "a2 \<le> 1" "\<bar>a2 - w2\<bar> \<le> 2 * u"
    using w by (rule_tac fl_step [of 0 w2 1 1 "2 * u"])
      (simp_all add: repr_small powr_neg_numeral u_def)
  have m1: "0 \<le> a1 * s2" "a1 * s2 \<le> 1" using a1(2,3) s2(2,3) by (simp_all add: mult_le_one)
  have m2: "0 \<le> a2 * s2" "a2 * s2 \<le> 1" using a2(2,3) s2(2,3) by (simp_all add: mult_le_one)
  obtain p1 where p1: "fl64 (a1 * s2) = Fin p1" "0 \<le> p1" "p1 \<le> 1" "\<bar>p1 - a1 * s2\<bar> \<le> 2 * u"
    using m1 by (rule_tac fl_step [of 0 "a1 * s2" 1 1 "2 * u"])
      (simp_all add: repr_small powr_neg_numeral u_def)
  obtain p2 where p2: "fl64 (a2 * s2) = Fin p2" "0 \<le> p2" "p2 \<le> 1" "\<bar>p2 - a2 * s2\<bar> \<le> 2 * u"
    using m2 by (rule_tac fl_step [of 0 "a2 * s2" 1 1 "2 * u"])
      (simp_all add: repr_small powr_neg_numeral u_def)
  have pe1: "\<bar>a1 * s2 - w1 * n0\<bar> \<le> 2 * u + 4 * u"
    using a1 n0 e2 by (intro prod_err) simp_all
  have pe2: "\<bar>a2 * s2 - w2 * n0\<bar> \<le> 2 * u + 4 * u"
    using a2 n0 e2 by (intro prod_err) simp_all
  obtain sm where sm: "fl64 (p1 + p2) = Fin sm" "0 \<le> sm" "sm \<le> 2" "\<bar>sm - (p1 + p2)\<bar> \<le> 4 * u"
    using p1(2,3) p2(2,3) by (rule_tac fl_step [of 0 "p1 + p2" 2 2 "4 * u"])
      (simp_all add: repr_small powr_neg_numeral u_def)
  obtain d1 where d1: "fl64 (sm * 4) = Fin d1" "0 \<le> d1" "d1 \<le> 8" "\<bar>d1 - sm * 4\<bar> \<le> 16 * u"
    using sm(2,3) by (rule_tac fl_step [of 0 "sm * 4" 8 4 "16 * u"])
      (simp_all add: repr_small powr_neg_numeral u_def)
  obtain d2 where d2: "fl64 (1 + d1) = Fin d2" "\<bar>d2 - (1 + d1)\<bar> \<le> 16 * u"
    using d1(2,3) by (rule_tac fl_step [of 1 "1 + d1" 9 4 "16 * u"])
      (simp_all add: repr_small powr_neg_numeral u_def)
  have val: "denormalizeScore_d
              (js_add (js_mul (lit w1) (normalizeScore_d (Fin r)))
                      (js_mul (lit w2) (quarterOf (Fin r)))) = Fin d2"
    by (simp add: nrm q lit_def a1(1) a2(1) p1(1) p2(1) sm(1) denormalizeScore_d_def d1(1) d2(1))
  have one: "w1 * n0 + w2 * n0 = n0"
    using w(3) by (simp flip: distrib_right)
  have "\<bar>d2 - r\<bar> \<le> 112 * u"
    using p1(4) p2(4) pe1 pe2 sm(4) d1(4) d2(2) one n0(3) by argo
  also have "112 * u \<le> 1 / 10 ^ 14" by (simp add: u_def)
  finally show ?thesis using val by blast
qed

lemma blendTrait_close:
  assumes "1 \<le> r" "r \<le> 5"
  shows "\<exists>b. blendTrait t (Fin r) (quarterOf (Fin r)) = Fin b \<and> \<bar>b - r\<bar> \<le> 1 / 10 ^ 14"
proof -
  have w: "0 \<le> phase1 (BLENDING_WEIGHTS t)" "0 \<le> phase2 (BLENDING_WEIGHTS t)"
    "phase1 (BLENDING_WEIGHTS t) + phase2 (BLENDING_WEIGHTS t) = 1"
    by (cases t; simp)+
  show ?thesis unfolding blendTrait_def by (rule blend_close [OF assms w])
qed

lemma raw_scale_Fin: "raw_scale (Fin r) \<longleftrightarrow> 1 \<le> r \<and> r \<le> 5"
  by (simp add: raw_scale_def)

lemma raw_scale_lit_3_1: "raw_scale (lit 3.1)"
  unfolding lit_3_1 raw_scale_Fin by simp

text \<open>
  C10 (as amended). Blending a raw-scale vector \<open>x\<close> of numbers in [1, 5] with its own
  per-trait normalisation, \<open>y[t] = (x[t] - 1) / 4\<close> as the doubles compute it, gives
  \<open>x\<close> back up to rounding: every component of the result is a finite number within
  \<open>10 ^ -14\<close> of the component of \<open>x\<close>. The two blending weights of every trait sum
  to 1.
\<close>

theorem blend_agreeing_identity:
  assumes "\<forall>t. raw_scale (num_at x t)"
  shows "(\<forall>t. close_to (1 / 10 ^ 14) (num_at (blendScores x (agreeingPhase2 x)) t) (num_at x t))
         \<and> (\<forall>t. phase1 (BLENDING_WEIGHTS t) + phase2 (BLENDING_WEIGHTS t) = 1)"
proof
  show "\<forall>t. close_to (1 / 10 ^ 14) (num_at (blendScores x (agreeingPhase2 x)) t) (num_at x t)"
  proof
    fix t
    obtain r where r: "num_at x t = Fin r" "1 \<le> r" "r \<le> 5"
      using assms unfolding raw_scale_def by blast
    have y: "num_at (agreeingPhase2 x) t = quarterOf (num_at x t)"
      by (cases t) (simp_all add: agreeingPhase2_def)
    obtain b where b: "blendTrait t (Fin r) (quarterOf (Fin r)) = Fin b" "\<bar>b - r\<bar> \<le> 1 / 10 ^ 14"
      using blendTrait_close [OF r(2,3)] by blast
    have "num_at (blendScores x (agreeingPhase2 x)) t = Fin b"
      by (simp only: blendScores_at y r(1) b(1))
    then show "close_to (1 / 10 ^ 14) (num_at (blendScores x (agreeingPhase2 x)) t) (num_at x t)"
      unfolding close_to_def using r(1) b(2) by blast
  qed
  show "\<forall>t. phase1 (BLENDING_WEIGHTS t) + phase2 (BLENDING_WEIGHTS t) = 1"
    by (simp add: all_traits)
qed

text \<open>
  An instance of C10: the vector of five times \<open>3.1\<close> is on the raw scale, and its
  blend with its own normalisation is within \<open>10 ^ -14\<close> of it on O.
\<close>

theorem blend_agreeing_identity_witness:
  "(\<forall>t. raw_scale (num_at all_3_1 t))
   \<and> close_to (1 / 10 ^ 14) (num_at (blendScores all_3_1 (agreeingPhase2 all_3_1)) Trait_O)
        (num_at all_3_1 Trait_O)"
proof -
  have a: "\<forall>t. raw_scale (num_at all_3_1 t)"
    unfolding all_traits all_3_1_def
    by (simp only: num_at.simps DoubleScores.simps raw_scale_lit_3_1 simp_thms)
  show ?thesis using blend_agreeing_identity [OF a] a by blast
qed

text \<open>
  The identity of C10 does not hold exactly in the code: for \<open>x[O] = 3.1\<close>, the double
  \<open>6980579422424269 / 2 ^ 51\<close>, and \<open>y[O] = (x[O] - 1) / 4\<close>, the blended O is the next
  double, \<open>6980579422424270 / 2 ^ 51\<close>, which prints as 3.1000000000000005. The sum
  \<open>0.45 * 0.525 + 0.55 * 0.525\<close> falls halfway between two doubles and is rounded up
  to the even one.
\<close>

theorem blend_agreeing_identity_counterexample:
  "num_at all_3_1 Trait_O = Fin (6980579422424269 / 2 ^ 51)
   \<and> num_at (blendScores all_3_1 (agreeingPhase2 all_3_1)) Trait_O
       = Fin (6980579422424270 / 2 ^ 51)
   \<and> num_at (blendScores all_3_1 (agreeingPhase2 all_3_1)) Trait_O \<noteq> num_at all_3_1 Trait_O"
proof -
  have "num_at (blendScores all_3_1 (agreeingPhase2 all_3_1)) Trait_O
      = blendTrait Trait_O (lit 3.1) (quarterOf (lit 3.1))"
    by (subst blendScores_at)
      (simp only: all_3_1_def agreeingPhase2_def num_at.simps DoubleScores.simps)
  also have "\<dots> = Fin (6980579422424270 / 2 ^ 51)" by (rule blendTrait_O_3_1)
  finally have a: "num_at (blendScores all_3_1 (agreeingPhase2 all_3_1)) Trait_O
      = Fin (6980579422424270 / 2 ^ 51)" .
  have b: "num_at all_3_1 Trait_O = Fin (6980579422424269 / 2 ^ 51)"
    by (simp only: all_3_1_def num_at.simps DoubleScores.simps lit_3_1)
  show ?thesis unfolding a b by simp
qed

subsection \<open>Behavioral scoring\<close>









subsubsection \<open>Where NaN cannot come from\<close>


lemma neg_not_NaN: "x \<noteq> NaN \<Longrightarrow> js_neg x \<noteq> NaN"
  by (cases x) auto









subsubsection \<open>Sums\<close>






subsubsection \<open>Variance, mean and the scores built from them\<close>






























subsubsection \<open>The five scores\<close>












subsubsection \<open>Overflow\<close>






subsubsection \<open>Fallback constants\<close>






end
